theory Spec2Isabelle
  imports Complex_Main
begin

section \<open>Python values, exceptions and string helpers\<close>

text \<open>
  The program is \<^verbatim>\<open>src/env.py\<close>: two helpers (\<^verbatim>\<open>get_env\<close>, \<^verbatim>\<open>get_size\<close>) and the
  report routine \<^verbatim>\<open>show_env\<close>. Text is modelled as \<^typ>\<open>string\<close>; all labels the
  program builds are ASCII, so \<^const>\<open>length\<close> is Python's \<^verbatim>\<open>len\<close> on them.
  Every exception that can leave a function is a value of \<open>py_error\<close>, and a function
  that can raise returns \<open>py_error + 'a\<close> with \<open>Inl\<close> for the exception; \<^verbatim>\<open>show_env\<close>,
  which writes to the standard output, returns what it wrote together with the
  exception, if any.
\<close>

datatype py_error =
    ValueError string
  | IndexError
  | OverflowError
  | ModuleNotFoundError string
  | FileNotFoundError string
  | CalledProcessError string

text \<open>
  The second component of a report entry (\<^verbatim>\<open>e[1]\<close>) is \<^verbatim>\<open>None\<close>, a \<^verbatim>\<open>str\<close>, an
  \<^verbatim>\<open>int\<close> or a \<^verbatim>\<open>float\<close>. Floats reach the report only from \<^verbatim>\<open>psutil\<close> and are only
  ever interpolated into text, so a float value carries its \<^verbatim>\<open>str()\<close> text.
  \<^verbatim>\<open>None\<close> is \<^const>\<open>None\<close> of the option type.
\<close>

datatype pyval = PyStr string | PyInt int | PyFloat string

type_synonym entry = "string \<times> pyval option"

text \<open>
  The standard output is the list of the writes made to it, in the order the program
  issues them: \<open>Print s\<close> is one call \<^verbatim>\<open>print(s)\<close> of the program (the text \<open>s\<close> and
  the newline \<^verbatim>\<open>print\<close> adds), \<open>Command_output t\<close> is the text \<open>t\<close> that a command
  started with \<^verbatim>\<open>subprocess.call\<close> wrote itself, the standard output being
  inherited. Output captured with \<^verbatim>\<open>stdout=PIPE\<close> or \<^verbatim>\<open>check_output\<close> is not written.
\<close>

datatype event = Print string | Command_output string

definition digit_char :: "nat \<Rightarrow> char" where
  "digit_char d = ''0123456789'' ! d"

text \<open>\<^verbatim>\<open>str(n)\<close> for a non-negative and for any Python \<^verbatim>\<open>int\<close>.\<close>

fun str_nat :: "nat \<Rightarrow> string" where
  "str_nat n = (if n < 10 then [digit_char n] else str_nat (n div 10) @ [digit_char (n mod 10)])"

declare str_nat.simps [simp del]

definition str_int :: "int \<Rightarrow> string" where
  "str_int i = (if i < 0 then CHR ''-'' # str_nat (nat (- i)) else str_nat (nat i))"

text \<open>The text an f-string interpolates for a present value: \<^verbatim>\<open>f"{v}"\<close>.\<close>

fun str_val :: "pyval \<Rightarrow> string" where
  "str_val (PyStr s) = s"
| "str_val (PyInt i) = str_int i"
| "str_val (PyFloat t) = t"

text \<open>\<^verbatim>\<open>sep.join(xs)\<close>.\<close>

fun join :: "string \<Rightarrow> string list \<Rightarrow> string" where
  "join sep [] = []"
| "join sep [x] = x"
| "join sep (x # y # ys) = x @ sep @ join sep (y # ys)"

section \<open>\<^verbatim>\<open>get_env\<close> (lines 14--17)\<close>

text \<open>
  \<^verbatim>\<open>os.environ\<close> is a dictionary from names to values; \<^verbatim>\<open>os.environ.get(name, '')\<close>
  is the value, or the empty string when the name is not a key.
\<close>

definition get_env :: "(string \<rightharpoonup> string) \<Rightarrow> string \<Rightarrow> string" where
  "get_env environ name =
     (let res = (case environ name of None \<Rightarrow> '''' | Some v \<Rightarrow> v)
      in if length res \<noteq> 0 then res else ''Unknown'')"

section \<open>\<^verbatim>\<open>get_size\<close> (lines 19--30)\<close>

text \<open>
  \<^verbatim>\<open>bytes\<close> starts as a Python \<^verbatim>\<open>int\<close> and becomes a \<^verbatim>\<open>float\<close> at the first
  \<^verbatim>\<open>bytes /= factor\<close>. Both are modelled by their exact value, a rational, and every
  operation that produces a float rounds the exact result to the nearest IEEE double
  (53 significant bits, ties to even), as CPython's true division and \<^verbatim>\<open>float(int)\<close>
  do, raising \<^verbatim>\<open>OverflowError\<close> when the rounded magnitude reaches \<open>2 ^ 1024\<close>.
  \<^verbatim>\<open>get_size\<close> only rounds values that are \<open>0\<close> or of magnitude at least \<open>1\<close>
  (an integer, or a quotient \<open>bytes / 1024\<close> with \<open>bytes \<ge> 1024\<close>), so subnormal
  doubles never arise and \<open>to_double\<close> is written for that range.
\<close>

text \<open>Python's \<^verbatim>\<open>int.bit_length\<close> on non-negative integers.\<close>

fun bit_length :: "nat \<Rightarrow> nat" where
  "bit_length n = (if n = 0 then 0 else Suc (bit_length (n div 2)))"

declare bit_length.simps [simp del]

definition round_half_even :: "rat \<Rightarrow> int" where
  "round_half_even x =
     (let f = \<lfloor>x\<rfloor>; d = x - of_int f
      in if d < 1 / 2 then f
         else if 1 / 2 < d then f + 1
         else if even f then f else f + 1)"

definition to_double :: "rat \<Rightarrow> py_error + rat" where
  "to_double x =
     (if x = 0 then Inr 0
      else
        let a = \<bar>x\<bar>;
            e = bit_length (nat \<lfloor>a\<rfloor>);
            ulp = (if 53 \<le> e then 2 ^ (e - 53) else 1 / 2 ^ (53 - e));
            r = of_int (round_half_even (a / ulp)) * ulp
        in if 2 ^ 1024 \<le> r then Inl OverflowError
           else Inr (if x < 0 then - r else r))"

text \<open>
  \<^verbatim>\<open>f"{bytes:.2f}"\<close>: an \<^verbatim>\<open>int\<close> is converted to \<^verbatim>\<open>float\<close> first (a float is left as
  it is: \<open>to_double\<close> does not change a double), then the double's exact value is
  rounded to two decimals, ties to even, and printed in full.
\<close>

definition format_2f :: "rat \<Rightarrow> py_error + string" where
  "format_2f x =
     (case to_double x of
        Inl err \<Rightarrow> Inl err
      | Inr d \<Rightarrow>
          let h = nat (round_half_even (\<bar>d\<bar> * 100))
          in Inr ((if d < 0 then ''-'' else '''') @ str_nat (h div 100) @ ''.''
                  @ [digit_char (h mod 100 div 10), digit_char (h mod 10)]))"

text \<open>
  The \<^verbatim>\<open>for unit in [...]\<close> loop, by recursion on the units left. Falling off the end
  of the loop is Python's implicit \<^verbatim>\<open>return None\<close>: the result \<open>Inr None\<close>.
\<close>

fun get_size_loop :: "rat \<Rightarrow> string list \<Rightarrow> string \<Rightarrow> py_error + string option" where
  "get_size_loop bytes [] suffix = Inr None"
| "get_size_loop bytes (unit # units) suffix =
     (if bytes < 1024 then
        (case format_2f bytes of
           Inl err \<Rightarrow> Inl err
         | Inr s \<Rightarrow> Inr (Some (s @ unit @ suffix)))
      else
        (case to_double (bytes / 1024) of
           Inl err \<Rightarrow> Inl err
         | Inr bytes' \<Rightarrow> get_size_loop bytes' units suffix))"

definition get_size :: "int \<Rightarrow> string \<Rightarrow> py_error + string option" where
  "get_size bytes suffix =
     get_size_loop (of_int bytes) ['''', ''K'', ''M'', ''G'', ''T'', ''P''] suffix"

section \<open>Text operations used by \<^verbatim>\<open>show_env\<close>\<close>

text \<open>
  The characters \<^verbatim>\<open>str.strip()\<close> removes (among ASCII: codes 9 to 13 and 28 to 32) and
  the narrower set \<^verbatim>\<open>int()\<close> skips around a literal (codes 9 to 13 and 32).
\<close>

definition is_space :: "char \<Rightarrow> bool" where
  "is_space c = (c \<in> set [CHR 0x09, CHR 0x0A, CHR 0x0B, CHR 0x0C, CHR 0x0D,
                           CHR 0x1C, CHR 0x1D, CHR 0x1E, CHR 0x1F, CHR 0x20])"

definition is_int_space :: "char \<Rightarrow> bool" where
  "is_int_space c = (c \<in> set [CHR 0x09, CHR 0x0A, CHR 0x0B, CHR 0x0C, CHR 0x0D, CHR 0x20])"

definition is_digit :: "char \<Rightarrow> bool" where
  "is_digit c = (c \<in> set ''0123456789'')"

definition digit_val :: "char \<Rightarrow> nat" where
  "digit_val c = length (takeWhile (\<lambda>d. d \<noteq> c) ''0123456789'')"

definition strip_by :: "(char \<Rightarrow> bool) \<Rightarrow> string \<Rightarrow> string" where
  "strip_by ws s = rev (dropWhile ws (rev (dropWhile ws s)))"

text \<open>\<^verbatim>\<open>s.split(c)\<close> for a one-character separator: empty pieces are kept.\<close>

fun split_on :: "char \<Rightarrow> string \<Rightarrow> string list" where
  "split_on c [] = [[]]"
| "split_on c (x # xs) =
     (if x = c then [] # split_on c xs
      else (case split_on c xs of
              [] \<Rightarrow> [[x]]
            | w # ws \<Rightarrow> (x # w) # ws))"

text \<open>\<^verbatim>\<open>s.startswith(p)\<close>.\<close>

definition startswith :: "string \<Rightarrow> string \<Rightarrow> bool" where
  "startswith s p = (take (length p) s = p)"

text \<open>
  \<^verbatim>\<open>int(x)\<close> on text: surrounding whitespace is skipped, one sign is allowed, then
  decimal digits, where single underscores may stand between digits. Anything else
  raises \<^verbatim>\<open>ValueError\<close> (its message is kept without the quoted literal).
  \<open>int_digits acc cs\<close> reads the digits after the first.
\<close>

fun int_digits :: "nat \<Rightarrow> string \<Rightarrow> nat option" where
  "int_digits acc [] = Some acc"
| "int_digits acc (c # cs) =
     (if is_digit c then int_digits (acc * 10 + digit_val c) cs
      else if c = CHR ''_'' then
        (case cs of
           [] \<Rightarrow> None
         | d # ds \<Rightarrow> if is_digit d then int_digits (acc * 10 + digit_val d) ds else None)
      else None)"

definition int_unsigned :: "string \<Rightarrow> nat option" where
  "int_unsigned s =
     (case s of
        [] \<Rightarrow> None
      | c # cs \<Rightarrow> if is_digit c then int_digits (digit_val c) cs else None)"

definition py_int :: "string \<Rightarrow> py_error + int" where
  "py_int x =
     (let t = strip_by is_int_space x;
          r = (case t of
                 [] \<Rightarrow> None
               | c # cs \<Rightarrow>
                   if c = CHR ''-'' then map_option (\<lambda>n. - int n) (int_unsigned cs)
                   else if c = CHR ''+'' then map_option int (int_unsigned cs)
                   else map_option int (int_unsigned t))
      in case r of
           None \<Rightarrow> Inl (ValueError ''invalid literal for int() with base 10'')
         | Some i \<Rightarrow> Inr i)"

text \<open>The list comprehension \<^verbatim>\<open>[int(x) for x in xs]\<close>: the first failure raises.\<close>

fun int_each :: "string list \<Rightarrow> py_error + int list" where
  "int_each [] = Inr []"
| "int_each (x # xs) =
     (case py_int x of
        Inl err \<Rightarrow> Inl err
      | Inr i \<Rightarrow> (case int_each xs of Inl err \<Rightarrow> Inl err | Inr is \<Rightarrow> Inr (i # is)))"

text \<open>
  \<^verbatim>\<open>re.findall(r'Driver Version: +(\d+\.\d+)', smi)\<close>, of which the program uses the
  first match only. \<open>driver_version_at s\<close> matches the pattern at the start of \<open>s\<close>:
  the three repetitions are greedy and the classes that follow each other are
  disjoint, so no backtracking is ever needed. \<open>driver_version s\<close> is the group of
  the leftmost match.
\<close>

definition driver_version_at :: "string \<Rightarrow> string option" where
  "driver_version_at s =
     (if startswith s ''Driver Version:'' then
        let r = drop 15 s;
            spaces = takeWhile (\<lambda>c. c = CHR '' '') r;
            r1 = dropWhile (\<lambda>c. c = CHR '' '') r;
            major = takeWhile is_digit r1;
            r2 = dropWhile is_digit r1;
            minor = takeWhile is_digit (drop 1 r2)
        in if spaces \<noteq> [] \<and> major \<noteq> [] \<and> take 1 r2 = ''.'' \<and> minor \<noteq> []
           then Some (major @ ''.'' @ minor) else None
      else None)"

fun driver_version :: "string \<Rightarrow> string option" where
  "driver_version [] = None"
| "driver_version (c # cs) =
     (case driver_version_at (c # cs) of
        Some v \<Rightarrow> Some v
      | None \<Rightarrow> driver_version cs)"

section \<open>The external collaborators of \<^verbatim>\<open>show_env\<close>\<close>

text \<open>
  \<^verbatim>\<open>subprocess.run(..., stdout=PIPE)\<close> returns a completed process: its return code
  and its captured output, here already decoded (the program decodes it as UTF-8).
\<close>

record completed_process =
  returncode :: int
  stdout :: string

text \<open>
  The imported \<^verbatim>\<open>distro\<close> module, given by what its \<^verbatim>\<open>linux_distribution()\<close> returns.
  A Python module defines neither \<^verbatim>\<open>__bool__\<close> nor \<^verbatim>\<open>__len__\<close>, so it is true in a
  condition.
\<close>

record distro_module =
  linux_distribution :: "string list"

definition module_truth :: "distro_module \<Rightarrow> bool" where
  "module_truth m = True"

text \<open>
  Everything \<^verbatim>\<open>show_env\<close> asks of the interpreter, the libraries and the operating
  system, one field per query, named after the call. A query the program guards with
  \<^verbatim>\<open>try\<close> or that is known to raise has its exception in the field's type:
  \<^item> \<open>pip_version\<close> is \<open>None\<close> when \<^verbatim>\<open>import pip\<close> raises \<^verbatim>\<open>ImportError\<close>;
  \<^item> \<open>run_nvidia_smi\<close> and \<open>run_nvidia_smi_query\<close> are \<open>None\<close> when
    \<^verbatim>\<open>subprocess.run\<close> raises (the tool is not installed);
  \<^item> \<open>check_output_sysctl\<close>, \<open>call_lscpu\<close> and \<open>call_wmic\<close> raise when the command
    cannot be started (\<^verbatim>\<open>FileNotFoundError\<close>) or, for \<^verbatim>\<open>check_output\<close>, fails
    (\<^verbatim>\<open>CalledProcessError\<close>); \<^verbatim>\<open>subprocess.call\<close> runs the command on the program's
    own standard output and returns its return code, so \<open>call_lscpu\<close> and \<open>call_wmic\<close>
    give the return code and the text the command wrote to the standard output;
  \<^item> \<open>import_distro\<close> is \<^verbatim>\<open>import_module('distro')\<close>, which raises
    \<^verbatim>\<open>ModuleNotFoundError\<close> when the package is not installed;
  \<^item> \<^verbatim>\<open>psutil.cpu_count\<close> returns \<^verbatim>\<open>None\<close> when the count is undetermined.
  Values that the program only interpolates into text (the CUDA and cuDNN versions,
  the percentages, which are floats) are given by their \<^verbatim>\<open>str()\<close> text.
\<close>

record host =
  python_version :: string
  torch_version :: string
  pip_version :: "string option"
  run_nvidia_smi :: "completed_process option"
  cuda_is_available :: bool
  torch_version_cuda :: string
  cudnn_enabled :: bool
  cudnn_version :: string
  run_nvidia_smi_query :: "completed_process option"
  cuda_device_count :: nat
  cuda_get_device_name :: "nat \<Rightarrow> string"
  platform_machine :: string
  platform_processor :: string
  sys_platform :: string
  check_output_sysctl :: "py_error + string"
  call_lscpu :: "py_error + int \<times> string"
  call_wmic :: "py_error + int \<times> string"
  cpu_count_physical :: "int option"
  cpu_count_logical :: "int option"
  cpu_percent_percpu :: "string list"
  cpu_percent :: string
  svmem_total :: int
  svmem_available :: int
  svmem_used :: int
  svmem_percent :: string
  swap_total :: int
  swap_free :: int
  swap_used :: int
  swap_percent :: string
  platform_platform :: string
  platform_node :: string
  platform_system :: string
  import_distro :: "py_error + distro_module"
  uname_version :: string
  environ :: "string \<rightharpoonup> string"
  sys_executable :: string
  sys_path :: "string list"

section \<open>\<^verbatim>\<open>show_env\<close>: building the report (lines 35--160)\<close>

text \<open>Lines 38--49: the software header, the versions and pip.\<close>

definition software_entries :: "host \<Rightarrow> entry list" where
  "software_entries h =
     [(''=== Software ==='', None),
      (''python'', Some (PyStr (python_version h))),
      (''torch'', Some (PyStr (torch_version h))),
      (''Pip'', Some (PyStr (case pip_version h of
                               None \<Rightarrow> ''No pip install''
                             | Some v \<Rightarrow> v)))]"

text \<open>Lines 52--57: the tool counts as available when it ran, returned 0 and printed.\<close>

definition have_nvidia_smi :: "host \<Rightarrow> bool" where
  "have_nvidia_smi h =
     (case run_nvidia_smi h of
        None \<Rightarrow> False
      | Some result \<Rightarrow> returncode result = 0 \<and> stdout result \<noteq> [])"

definition smi :: "host \<Rightarrow> string" where
  "smi h = (case run_nvidia_smi h of None \<Rightarrow> [] | Some result \<Rightarrow> stdout result)"

text \<open>Lines 63--67: the driver version, when the pattern is found.\<close>

definition driver_entries :: "host \<Rightarrow> entry list" where
  "driver_entries h =
     (if have_nvidia_smi h then
        (case driver_version (smi h) of
           None \<Rightarrow> []
         | Some v \<Rightarrow> [(''nvidia driver'', Some (PyStr v))])
      else [])"

text \<open>Lines 69--76: CUDA, and cuDNN only when CUDA is available.\<close>

definition cuda_entries :: "host \<Rightarrow> entry list" where
  "cuda_entries h =
     [(''torch cuda'',
       Some (PyStr (torch_version_cuda h @ '' / is ''
                    @ (if cuda_is_available h then ''available'' else ''**Not available** ''))))]
     @ (if cuda_is_available h then
          [(''torch cudnn'',
            Some (PyStr (cudnn_version h @ '' / is ''
                         @ (if cudnn_enabled h then ''enabled'' else ''**Not enabled** ''))))]
        else [])"

text \<open>
  Lines 81--93: the memory query. The result is \<open>gpu_total_mem\<close>, \<open>nvidia_gpu_cnt\<close> and
  what was written to the standard output (line 88). Only \<^verbatim>\<open>subprocess.run\<close> is inside the \<^verbatim>\<open>try\<close>; the parsing is in its \<^verbatim>\<open>else\<close>
  branch, so a \<^verbatim>\<open>ValueError\<close> of \<^verbatim>\<open>int\<close> leaves \<^verbatim>\<open>show_env\<close>.
\<close>

definition query_gpu_mem :: "host \<Rightarrow> py_error + (int list \<times> nat \<times> event list)" where
  "query_gpu_mem h =
     (if have_nvidia_smi h then
        (case run_nvidia_smi_query h of
           None \<Rightarrow> Inr ([], 0, [Print ''have nvidia-smi, but failed to query it''])
         | Some result \<Rightarrow>
             if returncode result = 0 \<and> stdout result \<noteq> [] then
               (case int_each (split_on CHR 0x0A (strip_by is_space (stdout result))) of
                  Inl err \<Rightarrow> Inl err
                | Inr gpu_total_mem \<Rightarrow> Inr (gpu_total_mem, length gpu_total_mem, []))
             else Inr ([], 0, []))
      else Inr ([], 0, []))"

text \<open>
  Lines 102--103: one entry per device torch sees. \<^verbatim>\<open>gpu_total_mem[i]\<close> raises
  \<^verbatim>\<open>IndexError\<close> when the list is non-empty and shorter than \<open>i + 1\<close>.
\<close>

fun gpu_entries :: "host \<Rightarrow> int list \<Rightarrow> nat list \<Rightarrow> py_error + entry list" where
  "gpu_entries h gpu_total_mem [] = Inr []"
| "gpu_entries h gpu_total_mem (i # is) =
     (if gpu_total_mem \<noteq> [] \<and> \<not> i < length gpu_total_mem then Inl IndexError
      else
        (case gpu_entries h gpu_total_mem is of
           Inl err \<Rightarrow> Inl err
         | Inr es \<Rightarrow>
             Inr ((''  - gpu'' @ str_nat i,
                   Some (PyStr ((if gpu_total_mem \<noteq> [] then str_int (gpu_total_mem ! i) @ ''MB | ''
                                 else [])
                                @ cuda_get_device_name h i))) # es)))"

text \<open>Lines 96--108: the device entries, given the result of the memory query.\<close>

definition device_entries :: "host \<Rightarrow> int list \<Rightarrow> nat \<Rightarrow> py_error + entry list" where
  "device_entries h gpu_total_mem nvidia_gpu_cnt =
     (let counted = (if nvidia_gpu_cnt \<noteq> 0
                     then [(''nvidia gpus'', Some (PyInt (int nvidia_gpu_cnt)))] else []);
          torch_gpu_cnt = cuda_device_count h
      in if torch_gpu_cnt \<noteq> 0 then
           (case gpu_entries h gpu_total_mem [0..<torch_gpu_cnt] of
              Inl err \<Rightarrow> Inl err
            | Inr es \<Rightarrow>
                Inr (counted @ [(''torch devices'', Some (PyInt (int torch_gpu_cnt)))] @ es))
         else if nvidia_gpu_cnt \<noteq> 0 then
           Inr (counted @
                [(''Have '' @ str_nat nvidia_gpu_cnt
                  @ '' GPU(s), but torch can't use them (check nvidia driver)'', None)])
         else Inr (counted @ [(''No GPUs available'', None)]))"

text \<open>
  Lines 112--118: the CPU name, by platform. The result is the entries and what was
  written to the standard output: \<^verbatim>\<open>check_output\<close> captures the command's output,
  \<^verbatim>\<open>subprocess.call\<close> lets the command write it.
\<close>

definition cpu_name_entries :: "host \<Rightarrow> py_error + (entry list \<times> event list)" where
  "cpu_name_entries h =
     (if startswith (sys_platform h) ''darwin'' then
        (case check_output_sysctl h of
           Inl err \<Rightarrow> Inl err
         | Inr out \<Rightarrow> Inr ([(''CPU Name'', Some (PyStr out))], []))
      else if startswith (sys_platform h) ''linux'' then
        (case call_lscpu h of
           Inl err \<Rightarrow> Inl err
         | Inr (code, written) \<Rightarrow>
             Inr ([(''CPU Name'', Some (PyInt code))], [Command_output written]))
      else if startswith (sys_platform h) ''win32'' then
        (case call_wmic h of
           Inl err \<Rightarrow> Inl err
         | Inr (code, written) \<Rightarrow>
             Inr ([(''CPU Name'', Some (PyInt code))], [Command_output written]))
      else Inr ([], []))"

text \<open>Lines 121--127: core counts and utilisation.\<close>

definition core_entries :: "host \<Rightarrow> entry list" where
  "core_entries h =
     [(''Physical cores:'', map_option PyInt (cpu_count_physical h)),
      (''Total cores:'', map_option PyInt (cpu_count_logical h)),
      (''CPU Usage Per Core:'', None)]
     @ map (\<lambda>(i, percentage). (''Core '' @ str_nat i @ '': '' @ percentage @ ''%'', None))
           (zip [0..<length (cpu_percent_percpu h)] (cpu_percent_percpu h))
     @ [(''Total CPU Usage: '' @ cpu_percent h @ ''%'', None)]"

text \<open>
  Lines 129--141: memory and swap. \<^verbatim>\<open>get_size\<close> may raise, and may return \<^verbatim>\<open>None\<close>,
  which then is the entry's value.
\<close>

definition size_entry :: "string \<Rightarrow> int \<Rightarrow> py_error + entry" where
  "size_entry label bytes =
     (case get_size bytes ''B'' of
        Inl err \<Rightarrow> Inl err
      | Inr s \<Rightarrow> Inr (label, map_option PyStr s))"

fun collect :: "(py_error + 'a) list \<Rightarrow> py_error + 'a list" where
  "collect [] = Inr []"
| "collect (x # xs) =
     (case x of
        Inl err \<Rightarrow> Inl err
      | Inr v \<Rightarrow> (case collect xs of Inl err \<Rightarrow> Inl err | Inr vs \<Rightarrow> Inr (v # vs)))"

definition memory_entries :: "host \<Rightarrow> py_error + entry list" where
  "memory_entries h =
     collect
       [Inr (''==Memory Info=='', None),
        size_entry ''Total:'' (svmem_total h),
        size_entry ''Available:'' (svmem_available h),
        size_entry ''Used:'' (svmem_used h),
        Inr (''Percentage: %'', Some (PyFloat (svmem_percent h))),
        Inr (''=SWAP='', None),
        size_entry ''Total:'' (swap_total h),
        size_entry ''Free:'' (swap_free h),
        size_entry ''Used:'' (swap_used h),
        Inr (''Percentage: '' @ swap_percent h @ ''%'', None)]"

text \<open>
  Lines 148--156: the distribution. The result is the entries and \<^verbatim>\<open>opt_mods\<close>.
  The \<^verbatim>\<open>else\<close> branch is written as in the source.
\<close>

definition distro_entries :: "host \<Rightarrow> py_error + (entry list \<times> string list)" where
  "distro_entries h =
     (if platform_system h = ''Linux'' then
        (case import_distro h of
           Inl err \<Rightarrow> Inl err
         | Inr distro \<Rightarrow>
             if module_truth distro
             then Inr ([(''distro'', Some (PyStr (join '' '' (linux_distribution distro))))], [])
             else Inr ([(''distro'', Some (PyStr (uname_version h)))], [''distro'']))
      else Inr ([], []))"

text \<open>Lines 158--160.\<close>

definition tail_entries :: "host \<Rightarrow> entry list" where
  "tail_entries h =
     [(''conda env'', Some (PyStr (get_env (environ h) ''CONDA_DEFAULT_ENV''))),
      (''python'', Some (PyStr (sys_executable h))),
      (''sys.path'', Some (PyStr (join ''\<newline>'' (sys_path h))))]"

text \<open>
  The state of \<^verbatim>\<open>show_env\<close> at line 161: the report \<^verbatim>\<open>rep\<close> and \<^verbatim>\<open>opt_mods\<close>.
\<close>

record report =
  rep :: "entry list"
  opt_mods :: "string list"

text \<open>
  Lines 35--160. The result is what was written to the standard output so far, and
  the report or the exception that was raised on the way; the sections are evaluated
  in the order of the source, and what was written before an exception stays written.
\<close>

definition build_report :: "host \<Rightarrow> event list \<times> (py_error + report)" where
  "build_report h =
     (case query_gpu_mem h of
        Inl err \<Rightarrow> ([], Inl err)
      | Inr (gpu_total_mem, nvidia_gpu_cnt, out1) \<Rightarrow>
     (case device_entries h gpu_total_mem nvidia_gpu_cnt of
        Inl err \<Rightarrow> (out1, Inl err)
      | Inr devices \<Rightarrow>
     (case cpu_name_entries h of
        Inl err \<Rightarrow> (out1, Inl err)
      | Inr (cpu_name, out2) \<Rightarrow>
     (case memory_entries h of
        Inl err \<Rightarrow> (out1 @ out2, Inl err)
      | Inr memory \<Rightarrow>
     (case distro_entries h of
        Inl err \<Rightarrow> (out1 @ out2, Inl err)
      | Inr (distro, mods) \<Rightarrow>
          (out1 @ out2,
           Inr \<lparr>rep =
                  software_entries h @ driver_entries h @ cuda_entries h
                  @ [(''\<newline>=== Hardware ==='', None)]
                  @ devices
                  @ [(''machine'', Some (PyStr (platform_machine h))),
                     (''processor'', Some (PyStr (platform_processor h))),
                     (''==CPU Info=='', None)]
                  @ cpu_name
                  @ core_entries h
                  @ memory
                  @ [(''\<newline>=== Environment ==='', None),
                     (''platform'', Some (PyStr (platform_platform h))),
                     (''Node Name'', Some (PyStr (platform_node h)))]
                  @ distro
                  @ tail_entries h,
                opt_mods = mods\<rparr>))))))"

section \<open>\<^verbatim>\<open>show_env\<close>: rendering (lines 162--181)\<close>

text \<open>Python's \<^verbatim>\<open>max\<close> of a list: \<^verbatim>\<open>ValueError\<close> on the empty list.\<close>

definition py_max :: "nat list \<Rightarrow> py_error + nat" where
  "py_max xs =
     (case xs of
        [] \<Rightarrow> Inl (ValueError ''max() arg is an empty sequence'')
      | y # ys \<Rightarrow> Inr (fold max ys y))"

text \<open>Line 164.\<close>

definition keylen :: "entry list \<Rightarrow> py_error + nat" where
  "keylen r = py_max (map (\<lambda>e. length (fst e)) (filter (\<lambda>e. snd e \<noteq> None) r))"

text \<open>\<^verbatim>\<open>f"{s:{k}}"\<close>: \<open>s\<close> left-aligned in a field of width \<open>k\<close>, never cut.\<close>

definition pad :: "nat \<Rightarrow> string \<Rightarrow> string" where
  "pad k s = s @ replicate (k - length s) CHR '' ''"

text \<open>
  Line 166: what one \<^verbatim>\<open>print\<close> call of the loop writes (\<^verbatim>\<open>print\<close> puts a space
  between its two arguments).
\<close>

definition render_entry :: "nat \<Rightarrow> entry \<Rightarrow> string" where
  "render_entry k e =
     pad k (fst e) @ '' '' @ (case snd e of None \<Rightarrow> [] | Some v \<Rightarrow> '': '' @ str_val v)"

definition fence_open :: string where
  "fence_open = ''\<newline>\<newline>```text''"

definition fence_close :: string where
  "fence_close = ''```\<newline>''"

definition usage_note :: string where
  "usage_note = ''Please make sure to include opening/closing ``` when you paste into forums/github to make the reports appear formatted as code sections.\<newline>''"

text \<open>Lines 168--172: the raw tool output, or the line said when there is no tool.\<close>

definition gpu_lines :: "host \<Rightarrow> bool \<Rightarrow> string list" where
  "gpu_lines h show_nvidia_smi =
     (if have_nvidia_smi h then
        (if show_nvidia_smi then [''\<newline>'' @ smi h] else [])
      else
        (if cuda_device_count h \<noteq> 0 then [''no nvidia-smi is found'']
         else [''no supported gpus found on this system'']))"

text \<open>Lines 178--181.\<close>

definition opt_lines :: "string list \<Rightarrow> string list" where
  "opt_lines mods =
     (if mods \<noteq> [] then
        [''Optional package(s) to enhance the diagnostics can be installed with:'',
         ''pip install '' @ join '' '' mods,
         ''Once installed, re-run this utility to get the additional information'']
      else [])"

text \<open>
  \<^verbatim>\<open>show_env\<close>: everything written to the standard output, in order, and the
  exception that left the function, if one did. Line 162 prints the opening fence
  before line 164 computes the width.
\<close>

definition show_env :: "host \<Rightarrow> bool \<Rightarrow> event list \<times> py_error option" where
  "show_env h show_nvidia_smi =
     (case build_report h of
        (out, Inl err) \<Rightarrow> (out, Some err)
      | (out, Inr r) \<Rightarrow>
          (case keylen (rep r) of
             Inl err \<Rightarrow> (out @ [Print fence_open], Some err)
           | Inr k \<Rightarrow>
               (out @ [Print fence_open]
                @ map (\<lambda>e. Print (render_entry k e)) (rep r)
                @ map Print (gpu_lines h show_nvidia_smi)
                @ [Print fence_close, Print usage_note]
                @ map Print (opt_lines (opt_mods r)),
                None)))"

section \<open>Reading the standard output\<close>


section \<open>Example hosts\<close>

text \<open>
  A Linux machine with two NVIDIA devices, the \<^verbatim>\<open>distro\<close> package installed, and
  \<^verbatim>\<open>CONDA_DEFAULT_ENV\<close> set.
\<close>

definition linux_gpu_host :: host where
  "linux_gpu_host =
     \<lparr>python_version = ''3.11.10'',
      torch_version = ''2.1.0'',
      pip_version = Some ''23.0'',
      run_nvidia_smi =
        Some \<lparr>returncode = 0, stdout = ''| NVIDIA-SMI 396.44 Driver Version: 396.44 |''\<rparr>,
      cuda_is_available = True,
      torch_version_cuda = ''12.1'',
      cudnn_enabled = True,
      cudnn_version = ''8902'',
      run_nvidia_smi_query = Some \<lparr>returncode = 0, stdout = ''8192\<newline>16384\<newline>''\<rparr>,
      cuda_device_count = 2,
      cuda_get_device_name = (\<lambda>i. ''Tesla V100''),
      platform_machine = ''x86_64'',
      platform_processor = ''x86_64'',
      sys_platform = ''linux'',
      check_output_sysctl = Inl (CalledProcessError ''sysctl''),
      call_lscpu = Inr (0, ''Model name: Intel(R) Xeon(R) CPU\<newline>''),
      call_wmic = Inl (FileNotFoundError ''wmic''),
      cpu_count_physical = Some 1,
      cpu_count_logical = Some 2,
      cpu_percent_percpu = [''3.0'', ''12.5''],
      cpu_percent = ''4.1'',
      svmem_total = 1253656678,
      svmem_available = 1253656,
      svmem_used = 1252403022,
      svmem_percent = ''99.9'',
      swap_total = 0,
      swap_free = 0,
      swap_used = 0,
      swap_percent = ''0.0'',
      platform_platform = ''Linux-5.15'',
      platform_node = ''box'',
      platform_system = ''Linux'',
      import_distro = Inr \<lparr>linux_distribution = [''Ubuntu'', ''22.04'', ''jammy'']\<rparr>,
      uname_version = ''#1 SMP'',
      environ = [''CONDA_DEFAULT_ENV'' \<mapsto> ''base''],
      sys_executable = ''/usr/bin/python3'',
      sys_path = [''/usr/lib/python3'', ''/home/u'']\<rparr>"

text \<open>The same machine without the NVIDIA tool and without devices.\<close>

definition linux_cpu_host :: host where
  "linux_cpu_host =
     linux_gpu_host
       \<lparr>run_nvidia_smi := None, cuda_is_available := False, run_nvidia_smi_query := None,
        cuda_device_count := 0, environ := Map.empty\<rparr>"

section \<open>Evaluation on numerals\<close>

lemma bit_length_numeral:
  "bit_length (numeral k) = Suc (bit_length (numeral k div 2))"
  by (subst bit_length.simps) simp

lemma bit_length_0: "bit_length 0 = 0"
  by (simp add: bit_length.simps)

lemma bit_length_1: "bit_length 1 = 1"
  by (simp add: bit_length.simps)

lemma bit_length_Suc0: "bit_length (Suc 0) = 1"
  by (simp add: bit_length.simps)

lemma floor_rat_numeral: "\<lfloor>numeral a / numeral b :: rat\<rfloor> = numeral a div numeral b"
  using floor_divide_of_int_eq [of "numeral a" "numeral b", where ?'a = rat] by simp

lemma str_nat_numeral:
  "str_nat (numeral k) =
     (if (numeral k :: nat) < 10 then [digit_char (numeral k)]
      else str_nat (numeral k div 10) @ [digit_char (numeral k mod 10)])"
  by (rule str_nat.simps)

lemma str_nat_0: "str_nat 0 = ''0''"
  by (simp add: str_nat.simps digit_char_def)

lemma str_nat_1: "str_nat 1 = ''1''"
  by (simp add: str_nat.simps digit_char_def)

lemma str_nat_Suc0: "str_nat (Suc 0) = ''1''"
  by (simp add: str_nat.simps digit_char_def)

lemma str_nat_small: "n < 10 \<Longrightarrow> str_nat n = [digit_char n]"
  by (simp add: str_nat.simps)

lemmas size_eval =
  get_size_def to_double_def format_2f_def round_half_even_def Let_def
  bit_length_numeral bit_length_0 bit_length_1 bit_length_Suc0 floor_rat_numeral
  str_nat_numeral str_nat_0 str_nat_1 str_nat_Suc0 str_nat_small digit_char_def

lemmas text_eval =
  is_space_def is_int_space_def is_digit_def digit_val_def strip_by_def startswith_def
  int_unsigned_def py_int_def driver_version_at_def str_int_def

lemmas report_eval =
  software_entries_def have_nvidia_smi_def smi_def driver_entries_def cuda_entries_def
  query_gpu_mem_def device_entries_def cpu_name_entries_def core_entries_def
  size_entry_def memory_entries_def distro_entries_def module_truth_def tail_entries_def
  build_report_def get_env_def

lemmas render_eval =
  upt_conv_Cons py_max_def keylen_def pad_def render_entry_def gpu_lines_def opt_lines_def show_env_def

lemma linux_gpu_host_fields:
  "python_version linux_gpu_host = ''3.11.10''"
  "torch_version linux_gpu_host = ''2.1.0''"
  "pip_version linux_gpu_host = (Some ''23.0'')"
  "run_nvidia_smi linux_gpu_host = (Some \<lparr>returncode = 0, stdout = ''| NVIDIA-SMI 396.44 Driver Version: 396.44 |''\<rparr>)"
  "cuda_is_available linux_gpu_host = True"
  "torch_version_cuda linux_gpu_host = ''12.1''"
  "cudnn_enabled linux_gpu_host = True"
  "cudnn_version linux_gpu_host = ''8902''"
  "run_nvidia_smi_query linux_gpu_host = (Some \<lparr>returncode = 0, stdout = ''8192\<newline>16384\<newline>''\<rparr>)"
  "cuda_device_count linux_gpu_host = 2"
  "cuda_get_device_name linux_gpu_host = ((\<lambda>i. ''Tesla V100''))"
  "platform_machine linux_gpu_host = ''x86_64''"
  "platform_processor linux_gpu_host = ''x86_64''"
  "sys_platform linux_gpu_host = ''linux''"
  "check_output_sysctl linux_gpu_host = (Inl (CalledProcessError ''sysctl''))"
  "call_lscpu linux_gpu_host = (Inr (0, ''Model name: Intel(R) Xeon(R) CPU\<newline>''))"
  "call_wmic linux_gpu_host = (Inl (FileNotFoundError ''wmic''))"
  "cpu_count_physical linux_gpu_host = (Some 1)"
  "cpu_count_logical linux_gpu_host = (Some 2)"
  "cpu_percent_percpu linux_gpu_host = ([''3.0'', ''12.5''])"
  "cpu_percent linux_gpu_host = ''4.1''"
  "svmem_total linux_gpu_host = 1253656678"
  "svmem_available linux_gpu_host = 1253656"
  "svmem_used linux_gpu_host = 1252403022"
  "svmem_percent linux_gpu_host = ''99.9''"
  "swap_total linux_gpu_host = 0"
  "swap_free linux_gpu_host = 0"
  "swap_used linux_gpu_host = 0"
  "swap_percent linux_gpu_host = ''0.0''"
  "platform_platform linux_gpu_host = ''Linux-5.15''"
  "platform_node linux_gpu_host = ''box''"
  "platform_system linux_gpu_host = ''Linux''"
  "import_distro linux_gpu_host = (Inr \<lparr>linux_distribution = [''Ubuntu'', ''22.04'', ''jammy'']\<rparr>)"
  "uname_version linux_gpu_host = ''#1 SMP''"
  "environ linux_gpu_host = ([''CONDA_DEFAULT_ENV'' \<mapsto> ''base''])"
  "sys_executable linux_gpu_host = ''/usr/bin/python3''"
  "sys_path linux_gpu_host = ([''/usr/lib/python3'', ''/home/u''])"
  by (simp_all add: linux_gpu_host_def)

section \<open>\<^verbatim>\<open>get_size\<close>\<close>

text \<open>
  C8: the two examples of the docstring hold: \<^verbatim>\<open>get_size(1253656)\<close> is \<^verbatim>\<open>'1.20MB'\<close> and
  \<^verbatim>\<open>get_size(1253656678)\<close> is \<^verbatim>\<open>'1.17GB'\<close>.
\<close>

theorem get_size_examples:
  "get_size 1253656 ''B'' = Inr (Some ''1.20MB'') \<and>
   get_size 1253656678 ''B'' = Inr (Some ''1.17GB'')"
  by (simp add: size_eval)

text \<open>
  C1: \<^verbatim>\<open>get_size\<close> does not return a string for every byte count. At \<open>1024 ^ 6\<close> the
  value is still not below 1024 after the last unit, the loop ends and the function
  returns \<^verbatim>\<open>None\<close>.
\<close>

theorem get_size_exbibyte_is_None:
  "get_size (1024 ^ 6) ''B'' = Inr None"
  by (simp add: size_eval)

section \<open>\<^verbatim>\<open>get_env\<close>\<close>

text \<open>
  C9: for every variable name, \<^verbatim>\<open>get_env\<close> returns the variable's value when it is set
  and not empty, and \<^verbatim>\<open>"Unknown"\<close> when it is unset or set to the empty string.
\<close>

theorem get_env_value_or_Unknown:
  "(env name = Some v \<and> v \<noteq> [] \<longrightarrow> get_env env name = v) \<and>
   (env name = None \<or> env name = Some [] \<longrightarrow> get_env env name = ''Unknown'')"
  by (auto simp: get_env_def)

theorem get_env_value_or_Unknown_witness:
  "get_env [''SET_VAR'' \<mapsto> ''foo''] ''SET_VAR'' = ''foo'' \<and>
   get_env [''SET_VAR'' \<mapsto> ''foo''] ''UNSET_VAR_XYZ'' = ''Unknown''"
  using get_env_value_or_Unknown [of "[''SET_VAR'' \<mapsto> ''foo'']" "''SET_VAR''" "''foo''"]
        get_env_value_or_Unknown [of "[''SET_VAR'' \<mapsto> ''foo'']" "''UNSET_VAR_XYZ''" "''foo''"]
  by simp

section \<open>The column width\<close>

lemma py_max_Max: "xs \<noteq> [] \<Longrightarrow> py_max xs = Inr (Max (set xs))"
proof (cases xs)
  case Nil
  assume "xs \<noteq> []"
  with Nil show ?thesis by simp
next
  case (Cons y ys)
  have "Max (set (y # ys)) = fold max ys y"
    by (rule Max.set_eq_fold)
  with Cons show ?thesis
    by (simp add: py_max_def)
qed

lemma py_max_Inr: "py_max xs = Inr k \<Longrightarrow> xs \<noteq> []"
  by (auto simp: py_max_def)

lemma keylen_valued:
  assumes "e \<in> set r" and "snd e \<noteq> None"
  shows "keylen r = Inr (Max ((\<lambda>e. length (fst e)) ` {e \<in> set r. snd e \<noteq> None}))"
proof -
  have "map (\<lambda>e. length (fst e)) (filter (\<lambda>e. snd e \<noteq> None) r) \<noteq> []"
    using assms by (auto simp: filter_empty_conv)
  then show ?thesis
    by (simp add: keylen_def py_max_Max)
qed


lemma keylen_widest:
  assumes "keylen r = Inr k"
  shows "k = Max ((\<lambda>e. length (fst e)) ` {e \<in> set r. snd e \<noteq> None}) \<and>
         (\<forall>e \<in> set r. \<forall>v. snd e = Some v \<longrightarrow>
            length (fst e) \<le> k \<and> length (pad k (fst e)) = k \<and>
            render_entry k e
              = fst e @ replicate (k - length (fst e)) CHR '' '' @ '' : '' @ str_val v)"
proof -
  from assms have "filter (\<lambda>e. snd e \<noteq> None) r \<noteq> []"
    by (auto simp: keylen_def dest: py_max_Inr)
  then obtain e0 where e0: "e0 \<in> set r" "snd e0 \<noteq> None"
    by (auto simp: filter_empty_conv)
  let ?S = "(\<lambda>e. length (fst e)) ` {e \<in> set r. snd e \<noteq> None}"
  have k: "k = Max ?S"
    using keylen_valued [OF e0] assms by simp
  have fin: "finite ?S" by simp
  have "length (fst e) \<le> k \<and> length (pad k (fst e)) = k \<and>
        render_entry k e = fst e @ replicate (k - length (fst e)) CHR '' '' @ '' : '' @ str_val v"
    if "e \<in> set r" and "snd e = Some v" for e v
  proof -
    have "length (fst e) \<in> ?S" using that by force
    then have le: "length (fst e) \<le> k"
      unfolding k using fin by (rule_tac Max_ge)
    then show ?thesis
      using that by (simp add: pad_def render_entry_def)
  qed
  with k show ?thesis by blast
qed

lemma keylen_example:
  "keylen [(''=== A decorative header line ==='', None), (''CPU'', Some (PyStr ''x'')),
           (''TotalMemoryOfSystem'', Some (PyStr ''y''))] = Inr 19 \<and>
   render_entry 19 (''CPU'', Some (PyStr ''x'')) = ''CPU                 : x'' \<and>
   render_entry 19 (''TotalMemoryOfSystem'', Some (PyStr ''y'')) = ''TotalMemoryOfSystem : y''"
  by (simp add: keylen_def py_max_def render_entry_def pad_def eval_nat_numeral)

lemma show_env_completes:
  assumes "show_env h show_nvidia_smi = (out, None)"
  shows "\<exists>pre r k.
           build_report h = (pre, Inr r) \<and> keylen (rep r) = Inr k \<and>
           out = pre @ [Print fence_open]
                 @ map (\<lambda>e. Print (render_entry k e)) (rep r)
                 @ map Print (gpu_lines h show_nvidia_smi)
                 @ [Print fence_close, Print usage_note]
                 @ map Print (opt_lines (opt_mods r))"
  using assms
  by (auto simp: show_env_def split: prod.splits sum.splits)

text \<open>
  C7: whenever \<^verbatim>\<open>show_env\<close> completes, the entries it printed are the entries of the
  built report, in order, right after the opening fence, each rendered with one and
  the same width; that width is the greatest label length among exactly the entries
  with a present value; every such entry is padded to that width, and its line is the
  padded label, a space, a colon, a space and the value.
\<close>

theorem show_env_width_is_widest_valued_label:
  assumes "show_env h show_nvidia_smi = (out, None)"
  shows "\<exists>pre r k post.
           build_report h = (pre, Inr r) \<and> keylen (rep r) = Inr k \<and>
           k = Max ((\<lambda>e. length (fst e)) ` {e \<in> set (rep r). snd e \<noteq> None}) \<and>
           out = pre @ [Print fence_open]
                 @ map (\<lambda>e. Print (render_entry k e)) (rep r) @ post \<and>
           (\<forall>e \<in> set (rep r). \<forall>v. snd e = Some v \<longrightarrow>
              length (fst e) \<le> k \<and> length (pad k (fst e)) = k \<and>
              render_entry k e
                = fst e @ replicate (k - length (fst e)) CHR '' '' @ '' : '' @ str_val v)"
proof -
  from show_env_completes [OF assms] obtain pre r k where
    b: "build_report h = (pre, Inr r)" and k: "keylen (rep r) = Inr k" and
    out: "out = pre @ [Print fence_open]
                @ map (\<lambda>e. Print (render_entry k e)) (rep r)
                @ map Print (gpu_lines h show_nvidia_smi)
                @ [Print fence_close, Print usage_note]
                @ map Print (opt_lines (opt_mods r))"
    by blast
  from keylen_widest [OF k] b k out show ?thesis
    by blast
qed

theorem show_env_width_is_widest_valued_label_witness:
  "\<exists>out pre r post.
     show_env linux_cpu_host False = (out, None) \<and>
     build_report linux_cpu_host = (pre, Inr r) \<and>
     keylen (rep r) = Inr 15 \<and>
     out = pre @ [Print fence_open] @ map (\<lambda>e. Print (render_entry 15 e)) (rep r) @ post \<and>
     (''python'', Some (PyStr ''3.11.10'')) \<in> set (rep r) \<and>
     render_entry 15 (''python'', Some (PyStr ''3.11.10'')) = ''python          : 3.11.10''"
proof -
  have "\<exists>out. show_env linux_cpu_host False = (out, None)"
    by (simp add: linux_cpu_host_def linux_gpu_host_fields report_eval render_eval
                  text_eval size_eval)
  then obtain out where out: "show_env linux_cpu_host False = (out, None)" ..
  from show_env_width_is_widest_valued_label [OF out] obtain pre r k post where
    b: "build_report linux_cpu_host = (pre, Inr r)" and k: "keylen (rep r) = Inr k" and
    o: "out = pre @ [Print fence_open] @ map (\<lambda>e. Print (render_entry k e)) (rep r) @ post" and
    a: "\<forall>e \<in> set (rep r). \<forall>v. snd e = Some v \<longrightarrow>
              length (fst e) \<le> k \<and> length (pad k (fst e)) = k \<and>
              render_entry k e
                = fst e @ replicate (k - length (fst e)) CHR '' '' @ '' : '' @ str_val v"
    by blast
  have "\<exists>pre r. build_report linux_cpu_host = (pre, Inr r) \<and> keylen (rep r) = Inr 15 \<and>
          (''python'', Some (PyStr ''3.11.10'')) \<in> set (rep r)"
    by (simp add: linux_cpu_host_def linux_gpu_host_fields report_eval render_eval
                  text_eval size_eval)
  with b k have k15: "k = 15" and py: "(''python'', Some (PyStr ''3.11.10'')) \<in> set (rep r)"
    by auto
  from a py have "render_entry k (''python'', Some (PyStr ''3.11.10''))
      = ''python'' @ replicate (k - length ''python'') CHR '' '' @ '' : '' @ str_val (PyStr ''3.11.10'')"
    by fastforce
  with k15 have "render_entry 15 (''python'', Some (PyStr ''3.11.10'')) = ''python          : 3.11.10''"
    by (simp add: eval_nat_numeral)
  with out b k o py k15 show ?thesis
    by blast
qed

section \<open>The report handed to rendering\<close>

lemma keylen_defined:
  assumes "e \<in> set r" and "snd e \<noteq> None"
  shows "\<exists>k. keylen r = Inr k"
  using keylen_valued [OF assms] by blast

lemma build_report_software:
  assumes "build_report h = (pre, Inr r)"
  shows "set (software_entries h) \<subseteq> set (rep r)"
  using assms
  by (auto simp: build_report_def split: sum.splits prod.splits)

lemma show_env_raised:
  assumes "show_env h show_nvidia_smi = (out, Some err)"
  shows "build_report h = (out, Inl err)"
proof (cases "build_report h")
  case (Pair pre res)
  show ?thesis
  proof (cases res)
    case (Inl e)
    with Pair assms show ?thesis
      by (simp add: show_env_def)
  next
    case (Inr r)
    with Pair have b: "build_report h = (pre, Inr r)" by simp
    have "(''python'', Some (PyStr (python_version h))) \<in> set (rep r)"
      using build_report_software [OF b] by (auto simp: software_entries_def)
    then have "\<exists>k. keylen (rep r) = Inr k"
      by (rule keylen_defined) simp
    with b assms show ?thesis
      by (auto simp: show_env_def)
  qed
qed

text \<open>
  C10: whenever \<^verbatim>\<open>show_env\<close> reaches the rendering, whatever the collaborators
  returned, the report holds the \<^verbatim>\<open>python\<close> and \<^verbatim>\<open>torch\<close> entries with their values,
  so the maximum of line 164 is taken over a non-empty list and yields a width; and
  an exception that leaves \<^verbatim>\<open>show_env\<close> was raised while building the report, never
  by the width computation.
\<close>

theorem report_has_valued_entry:
  "(build_report h = (pre, Inr r) \<longrightarrow>
      (''python'', Some (PyStr (python_version h))) \<in> set (rep r) \<and>
      (''torch'', Some (PyStr (torch_version h))) \<in> set (rep r) \<and>
      filter (\<lambda>e. snd e \<noteq> None) (rep r) \<noteq> [] \<and>
      (\<exists>k. keylen (rep r) = Inr k)) \<and>
   (show_env h show_nvidia_smi = (out, Some err) \<longrightarrow> build_report h = (out, Inl err))"
proof (intro conjI impI)
  assume r: "build_report h = (pre, Inr r)"
  have sub: "set (software_entries h) \<subseteq> set (rep r)"
    using r by (rule build_report_software)
  show py: "(''python'', Some (PyStr (python_version h))) \<in> set (rep r)"
    using sub by (auto simp: software_entries_def)
  show "(''torch'', Some (PyStr (torch_version h))) \<in> set (rep r)"
    using sub by (auto simp: software_entries_def)
  have "snd (''python'', Some (PyStr (python_version h))) \<noteq> None"
    by simp
  with py show "filter (\<lambda>e. snd e \<noteq> None) (rep r) \<noteq> []"
    unfolding filter_empty_conv by blast
  show "\<exists>k. keylen (rep r) = Inr k"
    using py by (rule keylen_defined) simp
next
  assume "show_env h show_nvidia_smi = (out, Some err)"
  then show "build_report h = (out, Inl err)"
    by (rule show_env_raised)
qed

theorem report_has_valued_entry_witness:
  "(\<exists>pre r k. build_report linux_cpu_host = (pre, Inr r) \<and> keylen (rep r) = Inr k \<and>
          (''python'', Some (PyStr ''3.11.10'')) \<in> set (rep r) \<and>
          (''torch'', Some (PyStr ''2.1.0'')) \<in> set (rep r)) \<and>
   build_report (linux_cpu_host\<lparr>call_lscpu := Inl (FileNotFoundError ''lscpu'')\<rparr>)
     = ([], Inl (FileNotFoundError ''lscpu''))"
proof -
  have "\<exists>pre r. build_report linux_cpu_host = (pre, Inr r)"
    by (simp add: linux_cpu_host_def linux_gpu_host_fields report_eval text_eval size_eval)
  then obtain pre r where r: "build_report linux_cpu_host = (pre, Inr r)" by blast
  have e: "show_env (linux_cpu_host\<lparr>call_lscpu := Inl (FileNotFoundError ''lscpu'')\<rparr>) False
             = ([], Some (FileNotFoundError ''lscpu''))"
    by (simp add: linux_cpu_host_def linux_gpu_host_fields report_eval render_eval
                  text_eval size_eval)
  from report_has_valued_entry [of linux_cpu_host pre r] r
  have "\<exists>k. keylen (rep r) = Inr k \<and>
            (''python'', Some (PyStr ''3.11.10'')) \<in> set (rep r) \<and>
            (''torch'', Some (PyStr ''2.1.0'')) \<in> set (rep r)"
    by (auto simp: linux_cpu_host_def linux_gpu_host_fields)
  moreover
  from report_has_valued_entry
         [of "linux_cpu_host\<lparr>call_lscpu := Inl (FileNotFoundError ''lscpu'')\<rparr>" _ _ False
             "[]" "FileNotFoundError ''lscpu''"] e
  have "build_report (linux_cpu_host\<lparr>call_lscpu := Inl (FileNotFoundError ''lscpu'')\<rparr>)
          = ([], Inl (FileNotFoundError ''lscpu''))"
    by blast
  ultimately show ?thesis
    using r by blast
qed

section \<open>The order of the standard output\<close>






section \<open>Where the report is not produced\<close>

text \<open>
  C4: on a Linux host where the \<^verbatim>\<open>distro\<close> package is not installed,
  \<^verbatim>\<open>import_module('distro')\<close> raises and the exception leaves \<^verbatim>\<open>show_env\<close>: only
  \<^verbatim>\<open>lscpu\<close> has written by then, no report is printed, no fallback entry is made and no
  package is suggested.
\<close>

theorem show_env_without_distro:
  "show_env (linux_gpu_host\<lparr>import_distro := Inl (ModuleNotFoundError ''distro'')\<rparr>) False
     = ([Command_output ''Model name: Intel(R) Xeon(R) CPU\<newline>''],
        Some (ModuleNotFoundError ''distro''))"
  by (simp add: linux_gpu_host_fields report_eval render_eval text_eval size_eval)

text \<open>
  C3: the tool is available and its memory query answers \<^verbatim>\<open>[N/A]\<close>, which is no
  integer: \<^verbatim>\<open>int\<close> raises \<^verbatim>\<open>ValueError\<close> outside the \<^verbatim>\<open>try\<close>, and the exception leaves
  \<^verbatim>\<open>show_env\<close>, with nothing written, instead of leaving the memory list empty.
\<close>

theorem show_env_unparsable_memory:
  "query_gpu_mem
     (linux_gpu_host\<lparr>run_nvidia_smi_query := Some \<lparr>returncode = 0, stdout = ''[N/A]\<newline>''\<rparr>\<rparr>)
     = Inl (ValueError ''invalid literal for int() with base 10'') \<and>
   show_env
     (linux_gpu_host\<lparr>run_nvidia_smi_query := Some \<lparr>returncode = 0, stdout = ''[N/A]\<newline>''\<rparr>\<rparr>)
     False
     = ([], Some (ValueError ''invalid literal for int() with base 10''))"
  by (simp add: linux_gpu_host_fields report_eval render_eval text_eval size_eval)

text \<open>
  C2: building the report can end in an exception. Four hosts: no \<^verbatim>\<open>distro\<close>
  package on a Linux machine without the NVIDIA tool and with \<^verbatim>\<open>CONDA_DEFAULT_ENV\<close>
  unset; a memory query whose lines carry a unit; torch seeing three devices where
  the tool lists two; and a Linux machine without the \<^verbatim>\<open>lscpu\<close> command. In none of
  them is any part of the report printed.
\<close>

theorem show_env_raises:
  "show_env (linux_cpu_host\<lparr>import_distro := Inl (ModuleNotFoundError ''distro'')\<rparr>) False
     = ([Command_output ''Model name: Intel(R) Xeon(R) CPU\<newline>''],
        Some (ModuleNotFoundError ''distro'')) \<and>
   show_env
     (linux_gpu_host\<lparr>run_nvidia_smi_query :=
        Some \<lparr>returncode = 0, stdout = ''8192 MiB\<newline>16384 MiB\<newline>''\<rparr>\<rparr>) False
     = ([], Some (ValueError ''invalid literal for int() with base 10'')) \<and>
   show_env (linux_gpu_host\<lparr>cuda_device_count := 3\<rparr>) False = ([], Some IndexError) \<and>
   show_env (linux_gpu_host\<lparr>call_lscpu := Inl (FileNotFoundError ''lscpu'')\<rparr>) False
     = ([], Some (FileNotFoundError ''lscpu''))"
  by (simp add: linux_cpu_host_def linux_gpu_host_fields report_eval render_eval
                text_eval size_eval)

text \<open>
  C5: on Linux the value of the \<^verbatim>\<open>CPU Name\<close> entry is the return code of \<^verbatim>\<open>lscpu\<close>,
  an integer, and the report prints it as \<^verbatim>\<open>0\<close>; the CPU model text is what \<^verbatim>\<open>lscpu\<close>
  wrote itself, before the report, and it is not the entry's value.
\<close>

theorem cpu_name_on_linux_is_return_code:
  "cpu_name_entries linux_gpu_host
     = Inr ([(''CPU Name'', Some (PyInt 0))],
            [Command_output ''Model name: Intel(R) Xeon(R) CPU\<newline>'']) \<and>
   snd (show_env linux_gpu_host False) = None \<and>
   fst (show_env linux_gpu_host False) ! 0
     = Command_output ''Model name: Intel(R) Xeon(R) CPU\<newline>'' \<and>
   fst (show_env linux_gpu_host False) ! 17 = Print ''CPU Name        : 0''"
  by (simp add: linux_gpu_host_fields report_eval render_eval text_eval size_eval)

section \<open>Further properties of \<^verbatim>\<open>get_size\<close>\<close>

lemma str_nat_digits: "str_nat n \<noteq> [] \<and> set (str_nat n) \<subseteq> set ''0123456789''"
proof (induction n rule: str_nat.induct)
  case (1 n)
  show ?case
  proof (cases "n < 10")
    case True
    then have "n \<in> {0, 1, 2, 3, 4, 5, 6, 7, 8, 9}" by auto
    then show ?thesis
      by (subst (1 2) str_nat.simps) (auto simp: digit_char_def)
  next
    case False
    have "n mod 10 \<in> {0, 1, 2, 3, 4, 5, 6, 7, 8, 9}"
      using mod_less_divisor [of 10 n] by (auto simp del: mod_less_divisor)
    then have d: "digit_char (n mod 10) \<in> set ''0123456789''"
      by (auto simp: digit_char_def)
    from False "1.IH" d show ?thesis
      by (subst (1 2) str_nat.simps) auto
  qed
qed

lemma format_2f_shape:
  assumes "format_2f x = Inr t"
  shows "\<exists>sign n d1 d2. t = sign @ str_nat n @ ''.'' @ [digit_char d1, digit_char d2] \<and>
           (sign = [] \<or> sign = ''-'') \<and> d1 < 10 \<and> d2 < 10"
proof -
  from assms obtain d where
    t: "t = (if d < 0 then ''-'' else []) @ str_nat (nat (round_half_even (\<bar>d\<bar> * 100)) div 100)
            @ ''.'' @ [digit_char (nat (round_half_even (\<bar>d\<bar> * 100)) mod 100 div 10),
                       digit_char (nat (round_half_even (\<bar>d\<bar> * 100)) mod 10)]"
    by (auto simp: format_2f_def Let_def split: sum.splits)
  let ?h = "nat (round_half_even (\<bar>d\<bar> * 100))"
  have "?h mod 100 div 10 < 10" by (simp add: less_mult_imp_div_less)
  moreover have "?h mod 10 < 10" by simp
  moreover have "(if d < 0 then ''-'' else []) = [] \<or> (if d < 0 then ''-'' else []) = ''-''"
    by simp
  ultimately show ?thesis
    using t by blast
qed

lemma get_size_loop_shape:
  assumes "get_size_loop x units suffix = Inr (Some s)"
  shows "\<exists>y t unit. format_2f y = Inr t \<and> unit \<in> set units \<and> s = t @ unit @ suffix"
  using assms
proof (induction units arbitrary: x)
  case Nil
  then show ?case by simp
next
  case (Cons u us)
  show ?case
  proof (cases "x < 1024")
    case True
    with Cons.prems obtain t where "format_2f x = Inr t" "s = t @ u @ suffix"
      by (auto split: sum.splits)
    then show ?thesis by auto
  next
    case False
    with Cons.prems obtain x' where "get_size_loop x' us suffix = Inr (Some s)"
      by (auto split: sum.splits)
    from Cons.IH [OF this] show ?thesis by auto
  qed
qed

text \<open>
  Every string \<^verbatim>\<open>get_size\<close> returns has the promised form: an optional minus sign, the
  decimal digits of a number, a point, two digits, one of the six units, the suffix.
\<close>

theorem get_size_string_shape:
  assumes "get_size b suffix = Inr (Some s)"
  shows "\<exists>sign n d1 d2 unit.
           s = sign @ str_nat n @ ''.'' @ [digit_char d1, digit_char d2] @ unit @ suffix \<and>
           (sign = [] \<or> sign = ''-'') \<and>
           str_nat n \<noteq> [] \<and> set (str_nat n) \<subseteq> set ''0123456789'' \<and>
           d1 < 10 \<and> d2 < 10 \<and>
           unit \<in> set ['''', ''K'', ''M'', ''G'', ''T'', ''P'']"
proof -
  from assms
  have "get_size_loop (of_int b) ['''', ''K'', ''M'', ''G'', ''T'', ''P''] suffix = Inr (Some s)"
    by (simp add: get_size_def)
  from get_size_loop_shape [OF this] obtain y t unit where
    f: "format_2f y = Inr t" and
    u: "unit \<in> set ['''', ''K'', ''M'', ''G'', ''T'', ''P'']" and
    s: "s = t @ unit @ suffix"
    by blast
  from format_2f_shape [OF f] obtain sign n d1 d2 where
    t: "t = sign @ str_nat n @ ''.'' @ [digit_char d1, digit_char d2]" and
    r: "sign = [] \<or> sign = ''-''" "d1 < 10" "d2 < 10"
    by blast
  from s t have "s = sign @ str_nat n @ ''.'' @ [digit_char d1, digit_char d2] @ unit @ suffix"
    by simp
  with r u str_nat_digits [of n] show ?thesis
    by blast
qed

theorem get_size_string_shape_witness:
  "\<exists>sign n d1 d2 unit.
     ''1.20MB'' = sign @ str_nat n @ ''.'' @ [digit_char d1, digit_char d2] @ unit @ ''B'' \<and>
     d1 < 10 \<and> d2 < 10 \<and> unit \<in> set ['''', ''K'', ''M'', ''G'', ''T'', ''P'']"
proof -
  have "get_size 1253656 ''B'' = Inr (Some ''1.20MB'')"
    by (simp add: size_eval)
  from get_size_string_shape [OF this] show ?thesis
    by blast
qed

lemma bit_length_lower: "0 < n \<Longrightarrow> 2 ^ (bit_length n - 1) \<le> n"
proof (induction n rule: bit_length.induct)
  case (1 n)
  show ?case
  proof (cases "n div 2 = 0")
    case True
    with "1.prems" have "n = 1" by (simp add: div_eq_0_iff)
    then show ?thesis
      by (simp add: bit_length.simps)
  next
    case False
    then have pos: "0 < n div 2" by simp
    from "1.IH" [OF _ pos] "1.prems" have ih: "2 ^ (bit_length (n div 2) - 1) \<le> n div 2"
      by simp
    have "0 < bit_length (n div 2)"
      using pos by (subst bit_length.simps) simp
    then have "bit_length n - 1 = Suc (bit_length (n div 2) - 1)"
      using "1.prems" by (subst bit_length.simps) simp
    then have "(2::nat) ^ (bit_length n - 1) = 2 * 2 ^ (bit_length (n div 2) - 1)"
      by simp
    also have "\<dots> \<le> 2 * (n div 2)"
      using ih by simp
    also have "\<dots> \<le> n" by simp
    finally show ?thesis .
  qed
qed

lemma round_half_even_bounds:
  assumes "0 \<le> y"
  shows "0 \<le> round_half_even y" and "of_int (round_half_even y) \<le> y + 1"
proof -
  have f0: "0 \<le> \<lfloor>y\<rfloor>" using assms by simp
  have "round_half_even y = \<lfloor>y\<rfloor> \<or> round_half_even y = \<lfloor>y\<rfloor> + 1"
    by (simp add: round_half_even_def Let_def)
  then show "0 \<le> round_half_even y"
    using f0 by auto
  have fl: "(of_int \<lfloor>y\<rfloor> :: rat) \<le> y" by simp
  show "of_int (round_half_even y) \<le> y + 1"
  proof (rule disjE [OF \<open>round_half_even y = \<lfloor>y\<rfloor> \<or> round_half_even y = \<lfloor>y\<rfloor> + 1\<close>])
    assume "round_half_even y = \<lfloor>y\<rfloor>"
    then have "of_int (round_half_even y) = (of_int \<lfloor>y\<rfloor> :: rat)" by simp
    with fl show ?thesis by linarith
  next
    assume "round_half_even y = \<lfloor>y\<rfloor> + 1"
    then have "of_int (round_half_even y) = (of_int \<lfloor>y\<rfloor> :: rat) + 1" by simp
    with fl show ?thesis by linarith
  qed
qed

lemma to_double_le:
  assumes "0 \<le> x" and "x < 2 ^ 1000"
  shows "\<exists>r. to_double x = Inr r \<and> 0 \<le> r \<and> r \<le> 2 * x + 1"
proof (cases "x = 0")
  case True
  then show ?thesis by (simp add: to_double_def)
next
  case False
  with assms have xpos: "0 < x" by simp
  define e where "e = bit_length (nat \<lfloor>x\<rfloor>)"
  define ulp :: rat where "ulp = (if 53 \<le> e then 2 ^ (e - 53) else 1 / 2 ^ (53 - e))"
  define r :: rat where "r = of_int (round_half_even (x / ulp)) * ulp"
  have ulp_pos: "0 < ulp" by (simp add: ulp_def)
  have ulp_le: "ulp \<le> x + 1"
  proof (cases "53 \<le> e")
    case True
    then have "0 < e" by simp
    then have npos: "0 < nat \<lfloor>x\<rfloor>"
      unfolding e_def by (subst (asm) bit_length.simps) (simp split: if_splits)
    have "(2::nat) ^ (e - 53) \<le> 2 ^ (e - 1)"
      by (rule power_increasing) simp_all
    also have "\<dots> \<le> nat \<lfloor>x\<rfloor>"
      unfolding e_def using npos by (rule bit_length_lower)
    finally have "(2::nat) ^ (e - 53) \<le> nat \<lfloor>x\<rfloor>" .
    then have "(of_nat (2 ^ (e - 53)) :: rat) \<le> of_nat (nat \<lfloor>x\<rfloor>)"
      by (simp only: of_nat_le_iff)
    also have "(of_nat (nat \<lfloor>x\<rfloor>) :: rat) = of_int \<lfloor>x\<rfloor>"
      using xpos by simp
    also have "\<dots> \<le> x" by simp
    finally have "(2::rat) ^ (e - 53) \<le> x" by simp
    with True show ?thesis by (simp add: ulp_def)
  next
    case False
    have "(1::rat) \<le> 2 ^ (53 - e)" by simp
    then have h: "1 / (2::rat) ^ (53 - e) \<le> 1"
      by (simp add: divide_le_eq)
    have "ulp = 1 / 2 ^ (53 - e)"
      using False by (simp add: ulp_def)
    with h xpos show ?thesis by linarith
  qed
  have q: "0 \<le> x / ulp" using xpos ulp_pos by simp
  have r0: "0 \<le> r"
    unfolding r_def using round_half_even_bounds(1) [OF q] ulp_pos by simp
  have "of_int (round_half_even (x / ulp)) * ulp \<le> (x / ulp + 1) * ulp"
    using round_half_even_bounds(2) [OF q] ulp_pos by (simp only: mult_le_cancel_right_pos)
  also have "\<dots> = x + ulp"
    using ulp_pos by (simp add: field_simps)
  finally have r1: "r \<le> x + ulp" by (simp add: r_def)
  with ulp_le have r2: "r \<le> 2 * x + 1" by simp
  have "(2::rat) * 2 ^ 1000 + 1 \<le> 2 ^ 1024" by simp
  with r2 assms have "r < 2 ^ 1024" by linarith
  then have lt: "\<not> 2 ^ 1024 \<le> r" by (simp only: not_le)
  have nz: "x \<noteq> 0" "\<not> x < 0" "\<bar>x\<bar> = x"
    using xpos by simp_all
  have "to_double x = (if 2 ^ 1024 \<le> r then Inl OverflowError else Inr r)"
    by (simp only: to_double_def Let_def r_def ulp_def e_def nz if_False)
  with lt have "to_double x = Inr r"
    by (simp only: if_False)
  with r0 r2 show ?thesis by blast
qed

lemma format_2f_defined:
  assumes "0 \<le> x" and "x < 2 ^ 1000"
  shows "\<exists>t. format_2f x = Inr t"
proof -
  from to_double_le [OF assms] obtain r where "to_double x = Inr r" by blast
  then show ?thesis
    by (simp add: format_2f_def Let_def)
qed

lemma get_size_loop_defined:
  assumes "units \<noteq> []" and "0 \<le> x" and "x < 2 ^ 1000" and "x < 512 ^ length units + 512"
  shows "\<exists>s. get_size_loop x units suffix = Inr (Some s)"
  using assms
proof (induction units arbitrary: x)
  case Nil
  then show ?case by simp
next
  case (Cons u us)
  show ?case
  proof (cases "x < 1024")
    case True
    from format_2f_defined [OF Cons.prems(2,3)] obtain t where "format_2f x = Inr t" ..
    with True show ?thesis by simp
  next
    case False
    then have big: "1024 \<le> x" by simp
    have us: "us \<noteq> []"
    proof
      assume "us = []"
      with Cons.prems(4) have "x < 1024" by simp
      with big show False by simp
    qed
    have q0: "0 \<le> x / 1024" using Cons.prems(2) by simp
    have q1: "x / 1024 < 2 ^ 1000" using Cons.prems(2,3) by simp
    from to_double_le [OF q0 q1] obtain r where
      r: "to_double (x / 1024) = Inr r" "0 \<le> r" "r \<le> 2 * (x / 1024) + 1"
      by blast
    have "2 * (x / 1024) + 1 \<le> x" using big by simp
    with r(3) Cons.prems(3) have r3: "r < 2 ^ 1000" by linarith
    have "x < 512 * 512 ^ length us + 512" using Cons.prems(4) by simp
    then have "2 * (x / 1024) + 1 < 512 ^ length us + 2" by simp
    with r(3) have r4: "r < 512 ^ length us + 512" by linarith
    from Cons.IH [OF us r(2) r3 r4] obtain s where "get_size_loop r us suffix = Inr (Some s)" ..
    with False r(1) show ?thesis by simp
  qed
qed

text \<open>
  For every byte count from \<open>0\<close> up to \<open>2 ^ 54\<close> (16 PiB), \<^verbatim>\<open>get_size\<close> returns a string:
  it neither raises nor returns \<^verbatim>\<open>None\<close>.
\<close>

theorem get_size_returns_string:
  assumes "0 \<le> b" and "b < 2 ^ 54"
  shows "\<exists>s. get_size b suffix = Inr (Some s)"
proof -
  have "(of_int b :: rat) < of_int (2 ^ 54)"
    using assms(2) by (simp only: of_int_less_iff)
  then have b54: "(of_int b :: rat) < 2 ^ 54" by simp
  have x0: "(0::rat) \<le> of_int b" using assms(1) by simp
  have x1: "(of_int b :: rat) < 2 ^ 1000" using b54 by simp
  have x2: "(of_int b :: rat) < 512 ^ length ['''', ''K'', ''M'', ''G'', ''T'', ''P''] + 512"
    using b54 by simp
  have "['''', ''K'', ''M'', ''G'', ''T'', ''P''] \<noteq> []" by simp
  from get_size_loop_defined [OF this x0 x1 x2] show ?thesis
    by (simp add: get_size_def)
qed

theorem get_size_returns_string_witness:
  "(0::int) \<le> 1253656678 \<and> (1253656678::int) < 2 ^ 54 \<and>
   (\<exists>s. get_size 1253656678 ''B'' = Inr (Some s))"
  using get_size_returns_string [of 1253656678 "''B''"] by simp


section \<open>Where the report is not produced, in general\<close>

text \<open>
  On every Linux host where importing \<^verbatim>\<open>distro\<close> raises, \<^verbatim>\<open>show_env\<close> ends in an
  exception, whatever the other collaborators return.
\<close>

theorem linux_without_distro_raises:
  assumes "platform_system h = ''Linux''" and "import_distro h = Inl err"
  shows "\<exists>out err'. show_env h show_nvidia_smi = (out, Some err')"
  using assms
  by (auto simp: show_env_def build_report_def distro_entries_def split: sum.splits prod.splits)

theorem linux_without_distro_raises_witness:
  "platform_system (linux_gpu_host\<lparr>import_distro := Inl (ModuleNotFoundError ''distro'')\<rparr>)
     = ''Linux'' \<and>
   (\<exists>out err'.
      show_env (linux_gpu_host\<lparr>import_distro := Inl (ModuleNotFoundError ''distro'')\<rparr>) True
        = (out, Some err'))"
  using linux_without_distro_raises
          [of "linux_gpu_host\<lparr>import_distro := Inl (ModuleNotFoundError ''distro'')\<rparr>"
              "ModuleNotFoundError ''distro''" True]
  by (simp add: linux_gpu_host_fields)

lemma py_int_error:
  "py_int x = Inl err \<Longrightarrow> err = ValueError ''invalid literal for int() with base 10''"
  by (auto simp: py_int_def Let_def split: option.splits)

lemma int_each_error:
  assumes "x \<in> set xs" and "py_int x = Inl err"
  shows "int_each xs = Inl (ValueError ''invalid literal for int() with base 10'')"
  using assms
proof (induction xs)
  case Nil
  then show ?case by simp
next
  case (Cons y ys)
  show ?case
  proof (cases "py_int y")
    case (Inl e)
    with py_int_error [OF Inl] show ?thesis by simp
  next
    case (Inr i)
    with Cons.prems have "x \<in> set ys" by auto
    from Cons.IH [OF this Cons.prems(2)] Inr show ?thesis by simp
  qed
qed

text \<open>
  Whenever the tool is available and its memory query succeeds with an output of
  which some line is not an integer literal, \<^verbatim>\<open>show_env\<close> ends in \<^verbatim>\<open>ValueError\<close>
  with nothing written.
\<close>

theorem unparsable_memory_line_raises:
  assumes "have_nvidia_smi h"
    and "run_nvidia_smi_query h = Some q"
    and "returncode q = 0" and "stdout q \<noteq> []"
    and "x \<in> set (split_on CHR 0x0A (strip_by is_space (stdout q)))"
    and "py_int x = Inl err"
  shows "show_env h show_nvidia_smi
           = ([], Some (ValueError ''invalid literal for int() with base 10''))"
proof -
  from int_each_error [OF assms(5,6)] assms(1-4)
  have "query_gpu_mem h = Inl (ValueError ''invalid literal for int() with base 10'')"
    by (simp add: query_gpu_mem_def)
  then show ?thesis
    by (simp add: show_env_def build_report_def)
qed

theorem unparsable_memory_line_raises_witness:
  "show_env
     (linux_gpu_host\<lparr>run_nvidia_smi_query :=
        Some \<lparr>returncode = 0, stdout = ''8192\<newline>[Not Supported]\<newline>''\<rparr>\<rparr>) True
     = ([], Some (ValueError ''invalid literal for int() with base 10''))"
proof -
  let ?q = "\<lparr>returncode = 0, stdout = ''8192\<newline>[Not Supported]\<newline>''\<rparr>"
  let ?h = "linux_gpu_host\<lparr>run_nvidia_smi_query := Some ?q\<rparr>"
  have 1: "have_nvidia_smi ?h"
    by (simp add: have_nvidia_smi_def linux_gpu_host_fields)
  have 2: "run_nvidia_smi_query ?h = Some ?q" by simp
  have 3: "returncode ?q = 0" "stdout ?q \<noteq> []" by simp_all
  have 4: "''[Not Supported]'' \<in> set (split_on CHR 0x0A (strip_by is_space (stdout ?q)))"
    by (simp add: text_eval)
  have 5: "py_int ''[Not Supported]''
             = Inl (ValueError ''invalid literal for int() with base 10'')"
    by (simp add: text_eval)
  from unparsable_memory_line_raises [OF 1 2 3 4 5] show ?thesis .
qed

lemma linux_not_darwin:
  assumes "startswith s ''linux''"
  shows "\<not> startswith s ''darwin''"
proof
  assume "startswith s ''darwin''"
  then have "\<exists>t. s = ''darwin'' @ t"
    unfolding startswith_def by (metis append_take_drop_id)
  then obtain t where d: "s = ''darwin'' @ t" ..
  from assms have "\<exists>t. s = ''linux'' @ t"
    unfolding startswith_def by (metis append_take_drop_id)
  then obtain t' where "s = ''linux'' @ t'" ..
  with d have "''darwin'' @ t = ''linux'' @ t'" by simp
  then show False by simp
qed

lemma build_report_cpu_name:
  assumes "build_report h = (pre, Inr r)"
  shows "\<exists>cpu_name out2. cpu_name_entries h = Inr (cpu_name, out2) \<and>
           set cpu_name \<subseteq> set (rep r)"
  using assms
  by (auto simp: build_report_def split: sum.splits prod.splits)

text \<open>
  On every Linux platform on which the report is built, the value of the
  \<^verbatim>\<open>CPU Name\<close> entry is the integer \<^verbatim>\<open>subprocess.call\<close> returned.
\<close>

theorem linux_cpu_name_is_int:
  assumes "startswith (sys_platform h) ''linux''" and "build_report h = (pre, Inr r)"
  shows "\<exists>code written. call_lscpu h = Inr (code, written) \<and>
           (''CPU Name'', Some (PyInt code)) \<in> set (rep r)"
proof -
  from build_report_cpu_name [OF assms(2)] obtain cpu_name out2 where
    c: "cpu_name_entries h = Inr (cpu_name, out2)" and sub: "set cpu_name \<subseteq> set (rep r)"
    by blast
  from c assms(1) linux_not_darwin [OF assms(1)]
  have "\<exists>code written. call_lscpu h = Inr (code, written) \<and>
          cpu_name = [(''CPU Name'', Some (PyInt code))]"
    by (auto simp: cpu_name_entries_def split: sum.splits prod.splits)
  with sub show ?thesis by auto
qed

theorem linux_cpu_name_is_int_witness:
  "startswith (sys_platform linux_cpu_host) ''linux'' \<and>
   (\<exists>pre r code written.
      build_report linux_cpu_host = (pre, Inr r) \<and>
      call_lscpu linux_cpu_host = Inr (code, written) \<and>
      (''CPU Name'', Some (PyInt code)) \<in> set (rep r))"
proof -
  have s: "startswith (sys_platform linux_cpu_host) ''linux''"
    by (simp add: linux_cpu_host_def linux_gpu_host_fields startswith_def)
  have "\<exists>pre r. build_report linux_cpu_host = (pre, Inr r)"
    by (simp add: linux_cpu_host_def linux_gpu_host_fields report_eval text_eval size_eval)
  then obtain pre r where r: "build_report linux_cpu_host = (pre, Inr r)" by blast
  from linux_cpu_name_is_int [OF s r] s r show ?thesis
    by blast
qed

end
